theory Spec2Isabelle
  imports Complex_Main "HOL-Library.AList"
begin

section \<open>Values\<close>

text \<open>
  The dashboard \<^verbatim>\<open>app/streamlit_app.py\<close> moves Python values between dicts, pandas
  frames and a CSV file. A float is an IEEE binary64 value: either a finite number (kept
  here by its real value), one of the two infinities, or NaN. Of the rounding of a decimal
  literal to the nearest binary64 only the two ends are modelled, overflow to an infinity
  and underflow to zero; in between the literal's exact value stands for the float.
\<close>

datatype pyfloat = Finite real | PosInf | NegInf | NaN

text \<open>
  The values a UI dict or a frame cell holds: \<^verbatim>\<open>None\<close>, a string or a float. An
  integer that has a float of the same value is represented by that float; an integer too
  large for a float (on which \<^verbatim>\<open>float\<close> raises \<^verbatim>\<open>OverflowError\<close>) and any other
  kind of object are outside the model.
\<close>

datatype pyval = PyNone | PyStr string | PyFloat pyfloat

datatype exn =
    ValueError | TypeError | IndexError | KeyError string | OSError | EmptyDataError
  | ModelFailure string

definition is_finite :: "pyfloat \<Rightarrow> bool" where
  "is_finite x = (case x of Finite r \<Rightarrow> True | _ \<Rightarrow> False)"

section \<open>The builtin \<^verbatim>\<open>float\<close>\<close>

text \<open>
  \<^verbatim>\<open>float(s)\<close> on an ASCII string, as the language reference gives it: surrounding
  whitespace is stripped, single underscores may stand between digits, case is ignored,
  and what is left is \<^verbatim>\<open>[sign] (inf | infinity | nan | number [exponent])\<close> with
  \<^verbatim>\<open>number = [digits] "." digits | digits ["."]\<close>. A literal too large for a binary64
  gives an infinity, one too small gives zero; anything outside the grammar raises
  \<^verbatim>\<open>ValueError\<close> (here: None).
\<close>

definition is_space :: "char \<Rightarrow> bool" where
  "is_space c = (c \<in> set [CHR '' '', CHR 0x09, CHR 0x0A, CHR 0x0B, CHR 0x0C, CHR 0x0D])"

definition is_digit :: "char \<Rightarrow> bool" where
  "is_digit c = (c \<in> set ''0123456789'')"

definition strip :: "string \<Rightarrow> string" where
  "strip s = rev (dropWhile is_space (rev (dropWhile is_space s)))"

definition lower :: "char \<Rightarrow> char" where
  "lower c = (if of_char c \<ge> (65::nat) \<and> of_char c \<le> (90::nat)
              then char_of (of_char c + (32::nat)) else c)"

text \<open>Underscores: each one has a digit before it and a digit after it.\<close>

fun drop_underscores :: "char option \<Rightarrow> string \<Rightarrow> string option" where
  "drop_underscores prev [] = (if prev = Some CHR ''_'' then None else Some [])"
| "drop_underscores prev (c # cs) =
     (if c = CHR ''_'' then
        (case prev of
           Some p \<Rightarrow> if is_digit p then drop_underscores (Some c) cs else None
         | None \<Rightarrow> None)
      else if prev = Some CHR ''_'' \<and> \<not> is_digit c then None
      else map_option ((#) c) (drop_underscores (Some c) cs))"

fun digits_val :: "nat \<Rightarrow> string \<Rightarrow> nat" where
  "digits_val acc [] = acc"
| "digits_val acc (c # cs) = digits_val (10 * acc + (of_char c - 48)) cs"

text \<open>The exponent part: empty, or \<^verbatim>\<open>e [sign] digits\<close> up to the end of the string.\<close>

definition exponent :: "string \<Rightarrow> int option" where
  "exponent s =
     (case s of
        [] \<Rightarrow> Some 0
      | c # t \<Rightarrow>
          if lower c \<noteq> CHR ''e'' then None
          else
            (let (neg, ds) =
               (case t of
                  [] \<Rightarrow> (False, [])
                | d # u \<Rightarrow> if d = CHR ''-'' then (True, u)
                           else if d = CHR ''+'' then (False, u) else (False, t))
             in if ds = [] \<or> \<not> list_all is_digit ds then None
                else Some (if neg then - int (digits_val 0 ds) else int (digits_val 0 ds))))"

definition scale10 :: "nat \<Rightarrow> int \<Rightarrow> real" where
  "scale10 m e = (if e \<ge> 0 then real m * 10 ^ nat e else real m / 10 ^ nat (- e))"

text \<open>
  The least magnitude that rounds to an infinity, \<open>2^1024 - 2^970\<close>, and the greatest
  that rounds to zero, \<open>2^-1075\<close>.
\<close>

definition overflow_threshold :: real where
  "overflow_threshold = 2 ^ 1024 - 2 ^ 970"

definition underflow_threshold :: real where
  "underflow_threshold = 1 / 2 ^ 1075"

definition number :: "string \<Rightarrow> real option" where
  "number s =
     (let ip = takeWhile is_digit s;
          r1 = dropWhile is_digit s;
          (fp, r2) =
            (case r1 of
               [] \<Rightarrow> ([], r1)
             | c # t \<Rightarrow> if c = CHR ''.'' then (takeWhile is_digit t, dropWhile is_digit t)
                        else ([], r1))
      in if ip = [] \<and> fp = [] then None
         else (case exponent r2 of
                 None \<Rightarrow> None
               | Some e \<Rightarrow> Some (scale10 (digits_val 0 (ip @ fp)) (e - int (length fp)))))"

definition unsigned_literal :: "string \<Rightarrow> pyfloat option" where
  "unsigned_literal s =
     (if map lower s = ''inf'' \<or> map lower s = ''infinity'' then Some PosInf
      else if map lower s = ''nan'' then Some NaN
      else (case number s of
              None \<Rightarrow> None
            | Some r \<Rightarrow>
                Some (if r \<ge> overflow_threshold then PosInf
                      else if r \<le> underflow_threshold then Finite 0
                      else Finite r)))"

definition negate :: "pyfloat \<Rightarrow> pyfloat" where
  "negate x = (case x of Finite r \<Rightarrow> Finite (- r) | PosInf \<Rightarrow> NegInf
               | NegInf \<Rightarrow> PosInf | NaN \<Rightarrow> NaN)"

definition float_literal :: "string \<Rightarrow> pyfloat option" where
  "float_literal s =
     (case s of
        [] \<Rightarrow> None
      | c # t \<Rightarrow> if c = CHR ''-'' then map_option negate (unsigned_literal t)
                 else if c = CHR ''+'' then unsigned_literal t
                 else unsigned_literal s)"

definition float_of_str :: "string \<Rightarrow> pyfloat option" where
  "float_of_str s =
     (case drop_underscores None (strip s) of
        None \<Rightarrow> None
      | Some t \<Rightarrow> float_literal t)"

text \<open>\<^verbatim>\<open>float(v)\<close>: the identity on a float, the parse of a string, \<^verbatim>\<open>TypeError\<close> on None.\<close>

fun py_float :: "pyval \<Rightarrow> exn + pyfloat" where
  "py_float PyNone = Inl TypeError"
| "py_float (PyStr s) = (case float_of_str s of None \<Rightarrow> Inl ValueError | Some x \<Rightarrow> Inr x)"
| "py_float (PyFloat x) = Inr x"

section \<open>Frames\<close>

text \<open>
  A pandas DataFrame: the column names in order, and one row per index entry. A row gives
  the cell of every column; what it holds outside \<open>columns\<close> is never read. What a
  frame shows to a consumer (the model, the CSV writer, the screen) is its table: the
  column names and, row by row, the cells of these columns.
\<close>

record 'a frame =
  columns :: "string list"
  rows :: "(string \<Rightarrow> 'a) list"

type_synonym 'a table = "string list \<times> 'a list list"

definition body :: "'a frame \<Rightarrow> 'a list list" where
  "body df = map (\<lambda>r. map r (columns df)) (rows df)"

definition table_of :: "'a frame \<Rightarrow> 'a table" where
  "table_of df = (columns df, body df)"

text \<open>
  \<^verbatim>\<open>pd.DataFrame([d])\<close> for a dict \<open>d\<close>, kept as an association list in insertion
  order: one row, the keys as columns; \<open>na\<close> is the missing-value filler.
\<close>

definition DataFrame1 :: "'a \<Rightarrow> (string \<times> 'a) list \<Rightarrow> 'a frame" where
  "DataFrame1 na d =
     \<lparr>columns = map fst d,
      rows = [\<lambda>c. case map_of d c of None \<Rightarrow> na | Some v \<Rightarrow> v]\<rparr>"

text \<open>\<^verbatim>\<open>df[names]\<close>: the columns \<open>names\<close> in that order; \<^verbatim>\<open>KeyError\<close> if one is absent.\<close>

definition select_cols :: "'a frame \<Rightarrow> string list \<Rightarrow> exn + 'a frame" where
  "select_cols df names =
     (case filter (\<lambda>n. n \<notin> set (columns df)) names of
        [] \<Rightarrow> Inr (df\<lparr>columns := names\<rparr>)
      | n # _ \<Rightarrow> Inl (KeyError n))"

text \<open>
  \<^verbatim>\<open>df[c] = value\<close>. An existing column keeps its place, a new one goes last. A scalar
  fills every row; a list or array must have one value per row (\<^verbatim>\<open>ValueError\<close>
  otherwise); a Series on the same index is written row by row.
\<close>

definition put_name :: "string \<Rightarrow> string list \<Rightarrow> string list" where
  "put_name c cs = (if c \<in> set cs then cs else cs @ [c])"

definition set_scalar :: "string \<Rightarrow> 'a \<Rightarrow> 'a frame \<Rightarrow> 'a frame" where
  "set_scalar c v df =
     \<lparr>columns = put_name c (columns df), rows = map (\<lambda>r. r(c := v)) (rows df)\<rparr>"

definition set_series :: "string \<Rightarrow> 'a list \<Rightarrow> 'a frame \<Rightarrow> 'a frame" where
  "set_series c vs df =
     \<lparr>columns = put_name c (columns df),
      rows = map (\<lambda>(r, v). r(c := v)) (zip (rows df) vs)\<rparr>"

definition set_list :: "string \<Rightarrow> 'a list \<Rightarrow> 'a frame \<Rightarrow> exn + 'a frame" where
  "set_list c vs df =
     (if length vs = length (rows df) then Inr (set_series c vs df) else Inl ValueError)"

section \<open>Configuration\<close>

definition MODEL_FEATURES :: "string list" where
  "MODEL_FEATURES =
     [''price'', ''1h'', ''24h'', ''7d'', ''24h_volume'', ''mkt_cap'', ''liquidity_ratio'',
      ''price_change_24h'']"

definition UI_FIELDS :: "string list" where
  "UI_FIELDS =
     [''coin'', ''symbol'', ''price'', ''1h'', ''24h'', ''7d'', ''24h_volume'', ''mkt_cap'',
      ''date'', ''liquidity_ratio'', ''price_change_24h'']"

text \<open>
  What the dashboard does not own: the loaded model (its optional
  \<^verbatim>\<open>feature_names_in_\<close> and its \<^verbatim>\<open>predict\<close>, which may raise), the clock as
  \<^verbatim>\<open>datetime.now().strftime("%Y-%m-%d %H:%M:%S")\<close> reads it, the file system under the
  history file (\<open>to_csv_error\<close>: what \<^verbatim>\<open>DataFrame.to_csv\<close> raises there, if anything;
  a write that raises leaves the file as it was) and the PDF library
  (\<open>generate_pdf\<close>: lines 120-141 draw with reportlab and save; here the file name
  or the exception).
\<close>

record env =
  feature_names_in :: "string list option"
  predict :: "pyfloat table \<Rightarrow> exn + pyfloat list"
  timestamp :: string
  to_csv_error :: "exn option"
  generate_pdf :: "(string \<rightharpoonup> pyval) \<Rightarrow> pyfloat \<Rightarrow> exn + string"

text \<open>Lines 72-75: the model's declared names, else a copy of \<open>MODEL_FEATURES\<close>.\<close>

definition model_feature_names :: "env \<Rightarrow> string list" where
  "model_feature_names e =
     (case feature_names_in e of Some ns \<Rightarrow> ns | None \<Rightarrow> MODEL_FEATURES)"

section \<open>The input adapter, single mode\<close>

text \<open>
  Lines 101-108, one pass of the loop: \<^verbatim>\<open>d.get(f, 0.0)\<close>, then inside \<^verbatim>\<open>try\<close> the
  empty string and None become 0.0 and \<^verbatim>\<open>float\<close> is applied; any exception gives 0.0.
\<close>

definition coerce_field :: "pyval option \<Rightarrow> pyfloat" where
  "coerce_field ov =
     (let v = (case ov of None \<Rightarrow> PyFloat (Finite 0) | Some x \<Rightarrow> x);
          v' = (if v = PyStr [] \<or> v = PyNone then PyFloat (Finite 0) else v)
      in case py_float v' of Inl e \<Rightarrow> Finite 0 | Inr x \<Rightarrow> x)"

fun build_row ::
  "string list \<Rightarrow> (string \<rightharpoonup> pyval) \<Rightarrow> (string \<times> pyfloat) list \<Rightarrow> (string \<times> pyfloat) list"
where
  "build_row [] d row = row"
| "build_row (f # fs) d row = build_row fs d (AList.update f (coerce_field (d f)) row)"

definition reorder :: "string list \<Rightarrow> 'a frame \<Rightarrow> exn + 'a frame" where
  "reorder names df =
     (if list_all (\<lambda>name. name \<in> set (columns df)) names then select_cols df names
      else select_cols df MODEL_FEATURES)"

definition prepare_model_df_from_ui_dict ::
  "env \<Rightarrow> (string \<rightharpoonup> pyval) \<Rightarrow> exn + pyfloat frame"
where
  "prepare_model_df_from_ui_dict e d =
     reorder (model_feature_names e) (DataFrame1 NaN (build_row MODEL_FEATURES d []))"

section \<open>The history file\<close>

text \<open>
  \<^verbatim>\<open>CSV_HISTORY\<close>: absent (None), or its lines, each a list of cells. The text format of
  a cell is not modelled.
\<close>

type_synonym store = "pyval list list option"

text \<open>Lines 143-151.\<close>

definition save_history_csv ::
  "env \<Rightarrow> pyval frame \<Rightarrow> pyfloat list \<Rightarrow> string \<Rightarrow> store \<Rightarrow> exn + store"
where
  "save_history_csv e ui_df preds mode st =
     (case set_list ''prediction'' (map PyFloat preds) ui_df of
        Inl x \<Rightarrow> Inl x
      | Inr out1 \<Rightarrow>
          (let out = set_scalar ''timestamp'' (PyStr (timestamp e))
                       (set_scalar ''mode'' (PyStr mode) out1)
           in case to_csv_error e of
                Some x \<Rightarrow> Inl x
              | None \<Rightarrow>
                  (case st of
                     Some old \<Rightarrow> Inr (Some (old @ body out))
                   | None \<Rightarrow> Inr (Some (map PyStr (columns out) # body out)))))"

text \<open>
  Lines 500-514, the reader: no file is no history; otherwise
  \<^verbatim>\<open>pd.read_csv(CSV_HISTORY, parse_dates=["timestamp"])\<close>, which takes the first line as
  the header, raises on a file with no line at all, and raises when the header has no
  \<^verbatim>\<open>timestamp\<close> column.
\<close>

definition readAll :: "store \<Rightarrow> exn + pyval list list" where
  "readAll st =
     (case st of
        None \<Rightarrow> Inr []
      | Some [] \<Rightarrow> Inl EmptyDataError
      | Some (h # rs) \<Rightarrow> if PyStr ''timestamp'' \<in> set h then Inr rs else Inl ValueError)"

section \<open>The dashboard's state\<close>

text \<open>
  What a handler can change: the history file, what the page shows (the calls of
  \<^verbatim>\<open>st.success\<close>, \<^verbatim>\<open>st.error\<close>, \<^verbatim>\<open>st.warning\<close>, \<^verbatim>\<open>st.dataframe\<close> and
  \<^verbatim>\<open>st.download_button\<close>, in order), and, to count them, the frames the handlers have
  passed to \<^verbatim>\<open>model.predict\<close>. The application log is not modelled.
\<close>

datatype ui_event =
    Success pyfloat
  | Error string exn
  | Warning string
  | Dataframe "pyval table"
  | DownloadPdf string
  | DownloadCsv "pyval table"

record world =
  history :: store
  screen :: "ui_event list"
  model_calls :: "pyfloat table list"

definition emit :: "ui_event \<Rightarrow> world \<Rightarrow> world" where
  "emit ev w = w\<lparr>screen := screen w @ [ev]\<rparr>"

text \<open>\<^verbatim>\<open>model.predict(df)\<close>: the call is recorded, then the model answers or raises.\<close>

definition call_predict :: "env \<Rightarrow> pyfloat frame \<Rightarrow> world \<Rightarrow> (exn + pyfloat list) \<times> world" where
  "call_predict e df w =
     (predict e (table_of df), w\<lparr>model_calls := model_calls w @ [table_of df]\<rparr>)"

section \<open>Single prediction\<close>

text \<open>Line 371: \<^verbatim>\<open>pd.DataFrame([{k: ui.get(k, "") for k in UI_FIELDS}])\<close>.\<close>

definition ui_frame :: "(string \<rightharpoonup> pyval) \<Rightarrow> pyval frame" where
  "ui_frame ui =
     DataFrame1 (PyFloat NaN)
       (map (\<lambda>k. (k, case ui k of None \<Rightarrow> PyStr [] | Some v \<Rightarrow> v)) UI_FIELDS)"

text \<open>
  Lines 365-373, the first part of the \<^verbatim>\<open>try\<close> block: adapt, predict, take
  \<^verbatim>\<open>float(preds[0])\<close>, announce it, append it to the history. The result is the
  prediction, or the exception that left the block, with the state at that moment.
\<close>

definition predictOne :: "env \<Rightarrow> (string \<rightharpoonup> pyval) \<Rightarrow> world \<Rightarrow> (exn + pyfloat) \<times> world" where
  "predictOne e ui w =
     (case prepare_model_df_from_ui_dict e ui of
        Inl x \<Rightarrow> (Inl x, w)
      | Inr model_df \<Rightarrow>
          (case call_predict e model_df w of
             (Inl x, w1) \<Rightarrow> (Inl x, w1)
           | (Inr [], w1) \<Rightarrow> (Inl IndexError, w1)
           | (Inr (pred # _), w1) \<Rightarrow>
               (let w2 = emit (Success pred) w1 in
                case save_history_csv e (ui_frame ui) [pred] ''single'' (history w2) of
                  Inl x \<Rightarrow> (Inl x, w2)
                | Inr h \<Rightarrow> (Inr pred, w2\<lparr>history := h\<rparr>))))"

text \<open>
  Lines 363-381, the button: the block above, then the PDF report and its download
  button; any exception of the block ends in \<^verbatim>\<open>st.error\<close>.
\<close>

definition single_predict :: "env \<Rightarrow> (string \<rightharpoonup> pyval) \<Rightarrow> world \<Rightarrow> world" where
  "single_predict e ui w =
     (case predictOne e ui w of
        (Inl x, w') \<Rightarrow> emit (Error ''Prediction failed'' x) w'
      | (Inr pred, w') \<Rightarrow>
          (case generate_pdf e ui pred of
             Inl x \<Rightarrow> emit (Error ''Prediction failed'' x) w'
           | Inr pdf \<Rightarrow> emit (DownloadPdf pdf) w'))"

section \<open>Batch prediction\<close>

text \<open>Lines 401-403: every UI field the upload lacks becomes a column of "" or 0.0.\<close>

definition default_cell :: "string \<Rightarrow> pyval" where
  "default_cell col =
     (if col \<in> set [''coin'', ''symbol'', ''date''] then PyStr [] else PyFloat (Finite 0))"

fun fill_missing :: "string list \<Rightarrow> pyval frame \<Rightarrow> pyval frame" where
  "fill_missing [] df = df"
| "fill_missing (col # cols) df =
     fill_missing cols
       (if col \<notin> set (columns df) then set_scalar col (default_cell col) df else df)"

text \<open>
  \<^verbatim>\<open>pd.to_numeric(..., errors="coerce")\<close> on one cell: a float stays, a string is read as
  a decimal literal or an infinity, and what cannot be read (None and the empty string
  too) becomes NaN. \<^verbatim>\<open>fillna(0.0)\<close> then replaces NaN.
\<close>

fun to_numeric_coerce :: "pyval \<Rightarrow> pyfloat" where
  "to_numeric_coerce PyNone = NaN"
| "to_numeric_coerce (PyStr s) = (case float_literal (strip s) of None \<Rightarrow> NaN | Some x \<Rightarrow> x)"
| "to_numeric_coerce (PyFloat x) = x"

definition fillna0 :: "pyfloat \<Rightarrow> pyfloat" where
  "fillna0 x = (if x = NaN then Finite 0 else x)"

text \<open>
  Lines 406-412: \<open>model_batch\<close> starts with no column, on the index of the upload, and
  gets the eight features one by one.
\<close>

fun build_model_batch :: "string list \<Rightarrow> pyval frame \<Rightarrow> pyfloat frame \<Rightarrow> pyfloat frame" where
  "build_model_batch [] ui_batch mb = mb"
| "build_model_batch (f # fs) ui_batch mb =
     build_model_batch fs ui_batch
       (if f \<in> set (columns ui_batch)
        then set_series f (map (\<lambda>r. fillna0 (to_numeric_coerce (r f))) (rows ui_batch)) mb
        else set_scalar f (Finite 0) mb)"

definition model_batch_of :: "pyval frame \<Rightarrow> pyfloat frame" where
  "model_batch_of ui_batch =
     build_model_batch MODEL_FEATURES ui_batch
       \<lparr>columns = [], rows = map (\<lambda>r. (\<lambda>c. NaN)) (rows ui_batch)\<rparr>"

text \<open>
  Lines 400-431, the \<^verbatim>\<open>try\<close> block of the batch button. The result is the predictions
  or the exception that left the block, with the state at that moment.
\<close>

definition predictMany :: "env \<Rightarrow> pyval frame \<Rightarrow> world \<Rightarrow> (exn + pyfloat list) \<times> world" where
  "predictMany e editable w =
     (let ui_batch = fill_missing UI_FIELDS editable in
      case reorder (model_feature_names e) (model_batch_of ui_batch) of
        Inl x \<Rightarrow> (Inl x, w)
      | Inr model_batch \<Rightarrow>
          (case call_predict e model_batch w of
             (Inl x, w1) \<Rightarrow> (Inl x, w1)
           | (Inr preds, w1) \<Rightarrow>
               (case set_list ''prediction'' (map PyFloat preds) ui_batch of
                  Inl x \<Rightarrow> (Inl x, w1)
                | Inr out \<Rightarrow>
                    (let w2 = emit (Dataframe (table_of out)) w1 in
                     case select_cols out (UI_FIELDS @ [''prediction'']) of
                       Inl x \<Rightarrow> (Inl x, w2)
                     | Inr hist_df \<Rightarrow>
                         (case save_history_csv e hist_df preds ''batch'' (history w2) of
                            Inl x \<Rightarrow> (Inl x, w2)
                          | Inr h \<Rightarrow>
                              (Inr preds,
                               emit (DownloadCsv (table_of out)) (w2\<lparr>history := h\<rparr>)))))))"

text \<open>Lines 395-434, the button; \<open>editable\<close> is None when there is no table.\<close>

definition batch_predict :: "env \<Rightarrow> pyval frame option \<Rightarrow> world \<Rightarrow> world" where
  "batch_predict e editable w =
     (case editable of
        None \<Rightarrow> emit (Warning ''No rows.'') w
      | Some ed \<Rightarrow>
          if length (rows ed) = 0 then emit (Warning ''No rows.'') w
          else (case predictMany e ed w of
                  (Inl x, w') \<Rightarrow> emit (Error ''Batch prediction failed'' x) w'
                | (Inr preds, w') \<Rightarrow> w'))"

section \<open>Notions the statements use\<close>

text \<open>The column order the model is given: its declared names if each is one of the
  eight features, else the canonical order (lines 113-117 and 415-418).\<close>

definition feature_order :: "env \<Rightarrow> string list" where
  "feature_order e =
     (if set (model_feature_names e) \<subseteq> set MODEL_FEATURES then model_feature_names e
      else MODEL_FEATURES)"

text \<open>The table \<open>model.predict\<close> gets for one record: one row, the coerced fields.\<close>

definition single_table :: "env \<Rightarrow> (string \<rightharpoonup> pyval) \<Rightarrow> pyfloat table" where
  "single_table e ui = (feature_order e, [map (\<lambda>f. coerce_field (ui f)) (feature_order e)])"

text \<open>One cell of the batch adapter, from the cell of the upload.\<close>

definition batch_cell :: "pyval frame \<Rightarrow> (string \<Rightarrow> pyval) \<Rightarrow> string \<Rightarrow> pyfloat" where
  "batch_cell ub r f =
     (if f \<in> set (columns ub) then fillna0 (to_numeric_coerce (r f)) else Finite 0)"

text \<open>The table \<open>model.predict\<close> gets for an upload: one row per uploaded row.\<close>

definition batch_table :: "env \<Rightarrow> pyval frame \<Rightarrow> pyfloat table" where
  "batch_table e ed =
     (feature_order e, map (\<lambda>r. map (batch_cell ed r) (feature_order e)) (rows ed))"

text \<open>
  A row of the upload once the missing UI fields are filled in, the frame \<open>out\<close> the
  batch handler shows and offers for download, and the lines it adds to the history.
\<close>

definition filled :: "pyval frame \<Rightarrow> (string \<Rightarrow> pyval) \<Rightarrow> string \<Rightarrow> pyval" where
  "filled ed r c =
     (if c \<in> set UI_FIELDS \<and> c \<notin> set (columns ed) then default_cell c else r c)"

definition batch_out :: "pyval frame \<Rightarrow> pyfloat list \<Rightarrow> pyval frame" where
  "batch_out ed preds =
     \<lparr>columns = put_name ''prediction''
                  (columns ed @ filter (\<lambda>c. c \<notin> set (columns ed)) UI_FIELDS),
      rows = map (\<lambda>(r, p). (filled ed r)(''prediction'' := PyFloat p)) (zip (rows ed) preds)\<rparr>"

definition batch_lines :: "env \<Rightarrow> pyval frame \<Rightarrow> pyfloat list \<Rightarrow> pyval list list" where
  "batch_lines e ed preds =
     map (\<lambda>(r, p). map (filled ed r) UI_FIELDS
                      @ [PyFloat p, PyStr ''batch'', PyStr (timestamp e)])
         (zip (rows ed) preds)"

definition history_header :: "pyval list" where
  "history_header = map PyStr (UI_FIELDS @ [''prediction'', ''mode'', ''timestamp''])"

text \<open>The line a single prediction adds to the history.\<close>

definition single_row :: "(string \<rightharpoonup> pyval) \<Rightarrow> pyfloat \<Rightarrow> string \<Rightarrow> pyval list" where
  "single_row ui p ts =
     map (\<lambda>k. case ui k of None \<Rightarrow> PyStr [] | Some v \<Rightarrow> v) UI_FIELDS
       @ [PyFloat p, PyStr ''single'', PyStr ts]"

text \<open>
  A sequence of calls of \<open>save_history_csv\<close>, each with its own environment; a call
  that raises leaves the file as it was. A call is accepted when it does not raise; it
  then writes the lines \<open>written\<close>, under the header \<open>header_line\<close> if it creates
  the file.
\<close>

type_synonym append_call = "env \<times> pyval frame \<times> pyfloat list \<times> string"

fun appends :: "append_call list \<Rightarrow> store \<Rightarrow> store" where
  "appends [] st = st"
| "appends ((e, df, preds, mode) # calls) st =
     appends calls
       (case save_history_csv e df preds mode st of Inl x \<Rightarrow> st | Inr st' \<Rightarrow> st')"

fun accepted :: "append_call \<Rightarrow> bool" where
  "accepted (e, df, preds, mode) =
     (length preds = length (rows df) \<and> to_csv_error e = None)"

fun history_columns :: "append_call \<Rightarrow> string list" where
  "history_columns (e, df, preds, mode) =
     put_name ''timestamp'' (put_name ''mode'' (put_name ''prediction'' (columns df)))"

fun header_line :: "append_call \<Rightarrow> pyval list" where
  "header_line c = map PyStr (history_columns c)"

fun written :: "append_call \<Rightarrow> pyval list list" where
  "written (e, df, preds, mode) =
     map (\<lambda>(r, p). map (r(''prediction'' := PyFloat p, ''mode'' := PyStr mode,
                           ''timestamp'' := PyStr (timestamp e)))
                      (history_columns (e, df, preds, mode)))
         (zip (rows df) preds)"

section \<open>Example inputs\<close>

text \<open>
  A model whose \<open>predict\<close> answers 0.42 for every row, one that always raises, a
  record as typed into the form, and an upload with an extra column and bad cells.
\<close>

definition example_env :: env where
  "example_env =
     \<lparr>feature_names_in = None,
      predict = (\<lambda>t. Inr (map (\<lambda>r. Finite (42 / 100)) (snd t))),
      timestamp = ''2024-01-01 00:00:00'',
      to_csv_error = None,
      generate_pdf = (\<lambda>ui p. Inr ''liquidity_report_20240101_000000.pdf'')\<rparr>"

definition failing_env :: env where
  "failing_env = example_env\<lparr>predict := (\<lambda>t. Inl (ModelFailure ''predict''))\<rparr>"

definition no_pdf_env :: env where
  "no_pdf_env = example_env\<lparr>generate_pdf := (\<lambda>ui p. Inl OSError)\<rparr>"

definition empty_world :: world where
  "empty_world = \<lparr>history = None, screen = [], model_calls = []\<rparr>"

definition example_ui :: "string \<rightharpoonup> pyval" where
  "example_ui =
     [''coin'' \<mapsto> PyStr ''btc'', ''price'' \<mapsto> PyFloat (Finite 100),
      ''1h'' \<mapsto> PyStr ''N/A'', ''24h'' \<mapsto> PyNone, ''7d'' \<mapsto> PyStr ''0.05'',
      ''mkt_cap'' \<mapsto> PyStr []]"

definition inf_ui :: "string \<rightharpoonup> pyval" where
  "inf_ui = [''price'' \<mapsto> PyStr ''inf'']"

definition example_upload :: "pyval frame" where
  "example_upload =
     \<lparr>columns = [''price'', ''note''],
      rows = [(\<lambda>c. PyNone)(''price'' := PyStr ''1.5'', ''note'' := PyStr ''first''),
              (\<lambda>c. PyNone)(''price'' := PyFloat NaN, ''note'' := PyStr ''second'')]\<rparr>"

definition inf_upload :: "pyval frame" where
  "inf_upload = \<lparr>columns = [''price''], rows = [(\<lambda>c. PyNone)(''price'' := PyFloat PosInf)]\<rparr>"

definition coin_frame :: "pyval frame" where
  "coin_frame = \<lparr>columns = [''coin''], rows = [\<lambda>c. PyStr ''btc'']\<rparr>"

definition full_disk_env :: env where
  "full_disk_env = example_env\<lparr>to_csv_error := Some OSError\<rparr>"

text \<open>A model that declares the eight features in another order, and one that declares
  them together with a ninth name.\<close>

definition declared_env :: env where
  "declared_env =
     example_env\<lparr>feature_names_in :=
       Some [''price_change_24h'', ''liquidity_ratio'', ''mkt_cap'', ''24h_volume'', ''7d'',
             ''24h'', ''1h'', ''price'']\<rparr>"


text \<open>The value "nan", typed into the form and as a cell of an upload.\<close>

definition nan_ui :: "string \<rightharpoonup> pyval" where
  "nan_ui = [''price'' \<mapsto> PyStr ''nan'']"

definition nan_upload :: "pyval frame" where
  "nan_upload = \<lparr>columns = [''price''], rows = [(\<lambda>c. PyNone)(''price'' := PyStr ''nan'')]\<rparr>"

section \<open>Frames and adapters: basic facts\<close>

lemma columns_set_scalar [simp]: "columns (set_scalar c v df) = put_name c (columns df)"
  by (simp add: set_scalar_def)

lemma rows_set_scalar [simp]: "rows (set_scalar c v df) = map (\<lambda>r. r(c := v)) (rows df)"
  by (simp add: set_scalar_def)

lemma columns_set_series [simp]: "columns (set_series c vs df) = put_name c (columns df)"
  by (simp add: set_series_def)

lemma rows_set_series [simp]:
  "rows (set_series c vs df) = map (\<lambda>(r, v). r(c := v)) (zip (rows df) vs)"
  by (simp add: set_series_def)

lemma set_put_name [simp]: "set (put_name c cs) = insert c (set cs)"
  by (auto simp: put_name_def)

lemma select_cols_ok:
  "set names \<subseteq> set (columns df) \<Longrightarrow> select_cols df names = Inr (df\<lparr>columns := names\<rparr>)"
proof -
  assume "set names \<subseteq> set (columns df)"
  then have "filter (\<lambda>n. n \<notin> set (columns df)) names = []"
    by (auto simp: filter_empty_conv)
  then show ?thesis by (simp add: select_cols_def)
qed

lemma reorder_eq:
  "set MODEL_FEATURES \<subseteq> set (columns df) \<Longrightarrow>
   reorder names df =
     Inr (df\<lparr>columns := (if set names \<subseteq> set (columns df) then names else MODEL_FEATURES)\<rparr>)"
  by (auto simp: reorder_def list_all_iff select_cols_ok)

lemma map_of_build_row:
  "map_of (build_row fs d row) f =
     (if f \<in> set fs then Some (coerce_field (d f)) else map_of row f)"
  by (induction fs arbitrary: row) (auto simp: update_conv')

lemma keys_build_row: "map fst (build_row MODEL_FEATURES d []) = MODEL_FEATURES"
  by (simp add: MODEL_FEATURES_def)

lemma prepare_eq:
  "prepare_model_df_from_ui_dict e d =
     Inr \<lparr>columns = (if set (model_feature_names e) \<subseteq> set MODEL_FEATURES
                      then model_feature_names e else MODEL_FEATURES),
          rows = [\<lambda>c. if c \<in> set MODEL_FEATURES then coerce_field (d c) else NaN]\<rparr>"
  unfolding prepare_model_df_from_ui_dict_def
  by (subst reorder_eq) (auto simp: DataFrame1_def keys_build_row map_of_build_row)



lemma length_rows_fill_missing [simp]: "length (rows (fill_missing cols df)) = length (rows df)"
  by (induction cols arbitrary: df) auto

lemma set_columns_fill_missing:
  "set (columns (fill_missing cols df)) = set (columns df) \<union> set cols"
  by (induction cols arbitrary: df) auto

lemma rows_fill_missing:
  "rows (fill_missing cols df) =
     map (\<lambda>r c. if c \<in> set cols \<and> c \<notin> set (columns df) then default_cell c else r c) (rows df)"
proof (induction cols arbitrary: df)
  case Nil
  then show ?case by simp
next
  case (Cons col cols)
  show ?case
  proof (cases "col \<in> set (columns df)")
    case True
    then show ?thesis using Cons.IH [of df] by (auto intro!: ext)
  next
    case False
    then show ?thesis
      using Cons.IH [of "set_scalar col (default_cell col) df"]
      by (auto simp: fun_eq_iff)
  qed
qed

lemma columns_fill_missing_prefix:
  "\<exists>added. columns (fill_missing cols df) = columns df @ added \<and> set added \<subseteq> set cols
           \<and> set added \<inter> set (columns df) = {}"
proof (induction cols arbitrary: df)
  case Nil
  then show ?case by simp
next
  case (Cons col cols)
  show ?case
  proof (cases "col \<in> set (columns df)")
    case True
    then show ?thesis using Cons.IH [of df] by auto
  next
    case False
    obtain added where a: "columns (fill_missing cols (set_scalar col (default_cell col) df))
        = columns (set_scalar col (default_cell col) df) @ added"
      "set added \<subseteq> set cols" "set added \<inter> set (columns (set_scalar col (default_cell col) df)) = {}"
      using Cons.IH [of "set_scalar col (default_cell col) df"] by blast
    from False a show ?thesis
      by (intro exI [of _ "col # added"]) (auto simp: put_name_def)
  qed
qed


lemma length_rows_build [simp]:
  "length (rows mb) = length (rows ub) \<Longrightarrow>
   length (rows (build_model_batch fs ub mb)) = length (rows ub)"
  by (induction fs arbitrary: mb) auto

lemma set_columns_build:
  "set (columns (build_model_batch fs ub mb)) = set (columns mb) \<union> set fs"
  by (induction fs arbitrary: mb) auto

lemma columns_build_model: "columns (build_model_batch MODEL_FEATURES ub \<lparr>columns = [], rows = rs\<rparr>) = MODEL_FEATURES"
  by (simp add: MODEL_FEATURES_def put_name_def)

lemma rows_build:
  "length (rows mb) = length (rows ub) \<Longrightarrow>
   rows (build_model_batch fs ub mb) =
     map (\<lambda>(r, m). \<lambda>c. if c \<in> set fs then batch_cell ub r c else m c) (zip (rows ub) (rows mb))"
proof (induction fs arbitrary: mb)
  case Nil
  then show ?case by (simp add: map_idI case_prod_unfold map_snd_zip)
next
  case (Cons f fs)
  let ?mb = "if f \<in> set (columns ub)
        then set_series f (map (\<lambda>r. fillna0 (to_numeric_coerce (r f))) (rows ub)) mb
        else set_scalar f (Finite 0) mb"
  have len: "length (rows ?mb) = length (rows ub)" using Cons.prems by simp
  have "rows (build_model_batch (f # fs) ub mb) = rows (build_model_batch fs ub ?mb)" by simp
  also have "\<dots> = map (\<lambda>(r, m). \<lambda>c. if c \<in> set fs then batch_cell ub r c else m c)
                      (zip (rows ub) (rows ?mb))"
    using Cons.IH [OF len] .
  also have "\<dots> = map (\<lambda>(r, m). \<lambda>c. if c \<in> set (f # fs) then batch_cell ub r c else m c)
                      (zip (rows ub) (rows mb))"
    using Cons.prems
    by (intro nth_equalityI) (auto simp: batch_cell_def fun_eq_iff)
  finally show ?case .
qed

lemma rows_model_batch_of:
  "rows (model_batch_of ub) =
     map (\<lambda>r c. if c \<in> set MODEL_FEATURES then batch_cell ub r c else NaN) (rows ub)"
  unfolding model_batch_of_def
  by (subst rows_build) (auto simp: zip_map2 intro!: nth_equalityI)

lemma columns_model_batch_of: "columns (model_batch_of ub) = MODEL_FEATURES"
  by (simp add: model_batch_of_def columns_build_model)


lemma save_history_csv_eq:
  "save_history_csv e df preds mode st =
     (if accepted (e, df, preds, mode)
      then Inr (Some (case st of
                        None \<Rightarrow> header_line (e, df, preds, mode) # written (e, df, preds, mode)
                      | Some old \<Rightarrow> old @ written (e, df, preds, mode)))
      else Inl (if length preds = length (rows df) then the (to_csv_error e) else ValueError))"
  by (auto simp: save_history_csv_def set_list_def body_def zip_map2 split_def
      split: option.splits)

lemma appends_Some:
  "appends calls (Some old) = Some (old @ concat (map written (filter accepted calls)))"
proof (induction calls arbitrary: old)
  case Nil
  then show ?case by simp
next
  case (Cons c calls)
  obtain e df preds mode where c: "c = (e, df, preds, mode)" by (cases c) auto
  show ?case
    using c Cons.IH by (cases "accepted c") (auto simp: save_history_csv_eq)
qed

lemma feature_order_subset: "set (feature_order e) \<subseteq> set MODEL_FEATURES"
  by (simp add: feature_order_def)

lemma prepare_frame:
  "prepare_model_df_from_ui_dict e d =
     Inr \<lparr>columns = feature_order e,
          rows = [\<lambda>c. if c \<in> set MODEL_FEATURES then coerce_field (d c) else NaN]\<rparr>"
  by (simp add: prepare_eq feature_order_def)

lemma prepare_table:
  "prepare_model_df_from_ui_dict e d = Inr df \<Longrightarrow> table_of df = single_table e d"
  using feature_order_subset [of e]
  by (auto simp: prepare_frame table_of_def body_def single_table_def)

lemma written_single:
  "written (e, ui_frame ui, [p], ''single'') = [single_row ui p (timestamp e)]"
  by (simp add: ui_frame_def DataFrame1_def UI_FIELDS_def put_name_def single_row_def)

lemma header_line_single:
  "header_line (e, ui_frame ui, [p], m) =
     map PyStr (UI_FIELDS @ [''prediction'', ''mode'', ''timestamp''])"
  by (simp add: ui_frame_def DataFrame1_def UI_FIELDS_def put_name_def)

lemma rows_ui_frame [simp]: "length (rows (ui_frame ui)) = 1"
  by (simp add: ui_frame_def DataFrame1_def)

lemma predictOne_cases:
  "predictOne e ui w =
     (let w1 = w\<lparr>model_calls := model_calls w @ [single_table e ui]\<rparr> in
      case predict e (single_table e ui) of
        Inl x \<Rightarrow> (Inl x, w1)
      | Inr [] \<Rightarrow> (Inl IndexError, w1)
      | Inr (p # ps) \<Rightarrow>
          (case to_csv_error e of
             Some x \<Rightarrow> (Inl x, emit (Success p) w1)
           | None \<Rightarrow>
               (Inr p,
                emit (Success p) w1
                  \<lparr>history := Some (case history w of
                       None \<Rightarrow> [map PyStr (UI_FIELDS @ [''prediction'', ''mode'', ''timestamp'']),
                                single_row ui p (timestamp e)]
                     | Some old \<Rightarrow> old @ [single_row ui p (timestamp e)])\<rparr>)))"
proof -
  obtain df where df: "prepare_model_df_from_ui_dict e ui = Inr df"
    by (simp add: prepare_frame)
  have t: "table_of df = single_table e ui" by (rule prepare_table [OF df])
  show ?thesis
    unfolding predictOne_def df
    by (auto simp: call_predict_def t Let_def emit_def save_history_csv_eq written_single
        header_line_single simp del: written.simps header_line.simps
        split: sum.splits list.splits option.splits)
qed

section \<open>The history file is append-only\<close>

text \<open>
  Claim C7. Take any sequence of calls of \<open>save_history_csv\<close> (lines 143-151) and any
  state of the history file. If the file exists, the result is the old lines, unchanged
  and in place, followed by the data lines of the accepted calls in order: nothing is
  rewritten or removed and no header is written. If the file does not exist, it stays
  absent until the first accepted call, which creates it with exactly one header line
  followed by its data lines; every later call adds data lines only.
\<close>

theorem history_append_only:
  "appends calls st =
     (case st of
        Some old \<Rightarrow> Some (old @ concat (map written (filter accepted calls)))
      | None \<Rightarrow>
          (case filter accepted calls of
             [] \<Rightarrow> None
           | c # cs \<Rightarrow> Some (header_line c # concat (map written (c # cs)))))"
proof (cases st)
  case (Some old)
  then show ?thesis by (simp add: appends_Some)
next
  case None
  have "appends calls None =
          (case filter accepted calls of
             [] \<Rightarrow> None
           | c # cs \<Rightarrow> Some (header_line c # concat (map written (c # cs))))"
  proof (induction calls)
    case Nil
    then show ?case by simp
  next
    case (Cons c calls)
    obtain e df preds mode where c: "c = (e, df, preds, mode)" by (cases c) auto
    show ?case
      using c Cons.IH
      by (cases "accepted c") (auto simp: save_history_csv_eq appends_Some split: list.splits)
  qed
  with None show ?thesis by simp
qed

theorem history_append_only_witness:
  "appends [(example_env, coin_frame, [Finite 1], ''single''),
            (full_disk_env, coin_frame, [Finite 2], ''single''),
            (example_env, coin_frame, [Finite 3, Finite 4], ''batch''),
            (example_env, coin_frame, [Finite 5], ''batch'')] None =
     Some [[PyStr ''coin'', PyStr ''prediction'', PyStr ''mode'', PyStr ''timestamp''],
           [PyStr ''btc'', PyFloat (Finite 1), PyStr ''single'', PyStr ''2024-01-01 00:00:00''],
           [PyStr ''btc'', PyFloat (Finite 5), PyStr ''batch'', PyStr ''2024-01-01 00:00:00'']]"
  using history_append_only
    [of "[(example_env, coin_frame, [Finite 1], ''single''),
          (full_disk_env, coin_frame, [Finite 2], ''single''),
          (example_env, coin_frame, [Finite 3, Finite 4], ''batch''),
          (example_env, coin_frame, [Finite 5], ''batch'')]" None]
  by (simp add: example_env_def full_disk_env_def coin_frame_def put_name_def)

section \<open>An empty batch\<close>

text \<open>
  Claim C6. When the batch button is pressed with no table or with a table of no rows
  (lines 395-397), the page shows the warning "No rows." and nothing else happens:
  the history file is what it was and \<open>model.predict\<close> has not been called.
\<close>

theorem empty_batch_changes_nothing:
  assumes "editable = None \<or> (\<exists>ed. editable = Some ed \<and> rows ed = [])"
  shows "screen (batch_predict e editable w) = screen w @ [Warning ''No rows.'']
       \<and> history (batch_predict e editable w) = history w
       \<and> model_calls (batch_predict e editable w) = model_calls w"
  using assms by (auto simp: batch_predict_def emit_def)

theorem empty_batch_changes_nothing_witness:
  "screen (batch_predict example_env (Some \<lparr>columns = [''price''], rows = []\<rparr>) empty_world)
     = [Warning ''No rows.'']
   \<and> history (batch_predict example_env (Some \<lparr>columns = [''price''], rows = []\<rparr>) empty_world)
     = None
   \<and> model_calls (batch_predict example_env (Some \<lparr>columns = [''price''], rows = []\<rparr>) empty_world)
     = []"
  using empty_batch_changes_nothing
    [of "Some \<lparr>columns = [''price''], rows = []\<rparr>" example_env empty_world]
  by (simp add: empty_world_def)

section \<open>A single prediction\<close>

lemma single_predict_history:
  "predictOne e ui w = (r, w') \<Longrightarrow> history (single_predict e ui w) = history w'"
  by (auto simp: single_predict_def emit_def split: sum.splits)

lemma predictOne_Inr:
  assumes "predictOne e ui w = (Inr p, w')"
  shows "history w' = Some (case history w of
            None \<Rightarrow> [map PyStr (UI_FIELDS @ [''prediction'', ''mode'', ''timestamp'']),
                     single_row ui p (timestamp e)]
          | Some old \<Rightarrow> old @ [single_row ui p (timestamp e)])"
    and "screen w' = screen w @ [Success p]"
    and "model_calls w' = model_calls w @ [single_table e ui]"
  using assms
  by (auto simp: predictOne_cases Let_def emit_def split: sum.splits list.splits option.splits)

lemma readAll_after_single:
  assumes "readAll (history w) = Inr old" and "PyStr ''timestamp'' \<in> set hdr"
  shows "readAll (Some (case history w of
            None \<Rightarrow> [hdr, row]
          | Some lines \<Rightarrow> lines @ [row])) = Inr (old @ [row])"
  using assms by (auto simp: readAll_def split: option.splits list.splits if_splits)

lemma header_has_timestamp:
  "PyStr ''timestamp'' \<in> set (map PyStr (UI_FIELDS @ [''prediction'', ''mode'', ''timestamp'']))"
  by simp

lemma single_row_cells:
  "single_row ui p ts ! 11 = PyFloat p \<and> single_row ui p ts ! 12 = PyStr ''single''
   \<and> single_row ui p ts ! 13 = PyStr ts \<and> length (single_row ui p ts) = 14"
  by (simp add: single_row_def UI_FIELDS_def)

lemma header_cells:
  "(UI_FIELDS @ [''prediction'', ''mode'', ''timestamp'']) ! 11 = ''prediction''
   \<and> (UI_FIELDS @ [''prediction'', ''mode'', ''timestamp'']) ! 12 = ''mode''
   \<and> (UI_FIELDS @ [''prediction'', ''mode'', ''timestamp'']) ! 13 = ''timestamp''"
  by (simp add: UI_FIELDS_def)

text \<open>
  Claim C1 as it was stated takes the return of the model call for the success of the
  prediction. It fails when the history cannot be written: the model answers, the page
  announces the prediction (line 368), then \<open>to_csv\<close> raises (line 372), the page
  shows the error and the history is what it was, here absent, so that it reads back
  with as many lines as before.
\<close>

theorem unwritable_history_counterexample:
  "predict full_disk_env (single_table full_disk_env example_ui) = Inr [Finite (42 / 100)]
   \<and> screen (single_predict full_disk_env example_ui empty_world) =
       [Success (Finite (42 / 100)), Error ''Prediction failed'' OSError]
   \<and> history (single_predict full_disk_env example_ui empty_world) = None
   \<and> readAll (history empty_world) = Inr []
   \<and> readAll (history (single_predict full_disk_env example_ui empty_world)) = Inr []"
proof -
  have p: "predict full_disk_env (single_table full_disk_env example_ui)
             = Inr [Finite (42 / 100)]"
    by (simp add: full_disk_env_def example_env_def single_table_def)
  have c: "to_csv_error full_disk_env = Some OSError"
    by (simp add: full_disk_env_def)
  show ?thesis
    using p c
    by (simp add: single_predict_def predictOne_cases Let_def emit_def readAll_def
        empty_world_def)
qed

lemma predictOne_succeeds:
  assumes "prepare_model_df_from_ui_dict e ui = Inr df"
    and "predict e (table_of df) = Inr (p # ps)"
    and "to_csv_error e = None"
  shows "predictOne e ui w = (Inr p, snd (predictOne e ui w))"
  using assms prepare_table [OF assms(1)]
  by (simp add: predictOne_cases Let_def)

text \<open>
  Claim C1, as amended. If the model call returns a prediction array with a first
  element \<open>p\<close> and the write of the history does not raise, then the first part of the
  single-prediction handler (lines 365-373) returns \<open>p\<close>, and the history read back
  afterwards is the history read before plus exactly one line; that line holds the
  record's UI fields, then \<open>p\<close> in the prediction column (cell 11), the mode
  \<open>single\<close> and the timestamp of the clock; and \<open>p\<close> is what the page announces.
\<close>

theorem single_prediction_is_logged:
  assumes "prepare_model_df_from_ui_dict e ui = Inr df"
    and "predict e (table_of df) = Inr (p # ps)"
    and "to_csv_error e = None"
    and "readAll (history w) = Inr old"
  shows "fst (predictOne e ui w) = Inr p
       \<and> readAll (history (single_predict e ui w)) = Inr (old @ [single_row ui p (timestamp e)])
       \<and> length (old @ [single_row ui p (timestamp e)]) = length old + 1
       \<and> last (old @ [single_row ui p (timestamp e)]) ! 11 = PyFloat p
       \<and> last (old @ [single_row ui p (timestamp e)]) ! 12 = PyStr ''single''
       \<and> last (old @ [single_row ui p (timestamp e)]) ! 13 = PyStr (timestamp e)
       \<and> Success p \<in> set (screen (single_predict e ui w))"
proof -
  have ok: "predictOne e ui w = (Inr p, snd (predictOne e ui w))"
    by (rule predictOne_succeeds [OF assms(1-3)])
  have h: "history (single_predict e ui w) = history (snd (predictOne e ui w))"
    by (rule single_predict_history [OF ok])
  have "screen (snd (predictOne e ui w)) = screen w @ [Success p]"
    by (rule predictOne_Inr(2) [OF ok])
  then have s: "Success p \<in> set (screen (single_predict e ui w))"
    using ok by (auto simp: single_predict_def emit_def split: sum.splits prod.splits)
  have f: "fst (predictOne e ui w) = Inr p"
    using ok by (metis fst_conv)
  show ?thesis
    using s f single_row_cells [of ui p "timestamp e"]
    by (simp add: h predictOne_Inr(1) [OF ok]
        readAll_after_single [OF assms(4) header_has_timestamp])
qed

theorem single_prediction_is_logged_witness:
  "readAll (history (single_predict example_env example_ui empty_world)) =
     Inr [[PyStr ''btc'', PyStr [], PyFloat (Finite 100), PyStr ''N/A'', PyNone, PyStr ''0.05'',
           PyStr [], PyStr [], PyStr [], PyStr [], PyStr [],
           PyFloat (Finite (42 / 100)), PyStr ''single'', PyStr ''2024-01-01 00:00:00'']]"
proof -
  obtain df where d: "prepare_model_df_from_ui_dict example_env example_ui = Inr df"
    by (simp add: prepare_frame)
  have p: "predict example_env (table_of df) = Inr (Finite (42 / 100) # [])"
    by (simp add: prepare_table [OF d] single_table_def) (simp add: example_env_def)
  have c: "to_csv_error example_env = None"
    by (simp add: example_env_def)
  have r: "readAll (history empty_world) = Inr []"
    by (simp add: empty_world_def readAll_def)
  show ?thesis
    using single_prediction_is_logged [OF d p c r]
    by (simp add: single_row_def UI_FIELDS_def example_ui_def example_env_def)
qed

text \<open>
  Claim C10. If that first part succeeded with prediction \<open>p\<close> and the PDF report then
  raises (lines 375-378), the page shows "Prediction failed" with the exception, and
  the line appended to the history stays: the history read back is the one read before
  plus exactly one line.
\<close>

theorem report_failure_keeps_history:
  assumes "predictOne e ui w = (Inr p, w')"
    and "generate_pdf e ui p = Inl x"
    and "readAll (history w) = Inr old"
  shows "screen (single_predict e ui w) =
           screen w @ [Success p, Error ''Prediction failed'' x]
       \<and> readAll (history (single_predict e ui w)) = Inr (old @ [single_row ui p (timestamp e)])
       \<and> length (old @ [single_row ui p (timestamp e)]) = length old + 1"
proof -
  have h: "history (single_predict e ui w) = history w'"
    by (rule single_predict_history [OF assms(1)])
  have s: "screen (single_predict e ui w) = screen w' @ [Error ''Prediction failed'' x]"
    using assms(1,2) by (simp add: single_predict_def emit_def)
  show ?thesis
    by (simp add: h s predictOne_Inr(1,2) [OF assms(1)] readAll_after_single [OF assms(3) header_has_timestamp])
qed

theorem report_failure_keeps_history_witness:
  "screen (single_predict no_pdf_env example_ui empty_world) =
     [Success (Finite (42 / 100)), Error ''Prediction failed'' OSError]
   \<and> readAll (history (single_predict no_pdf_env example_ui empty_world)) =
     Inr [single_row example_ui (Finite (42 / 100)) ''2024-01-01 00:00:00'']"
proof -
  have p: "predictOne no_pdf_env example_ui empty_world =
             (Inr (Finite (42 / 100)), snd (predictOne no_pdf_env example_ui empty_world))"
    by (simp add: predictOne_cases no_pdf_env_def example_env_def single_table_def Let_def)
  have g: "generate_pdf no_pdf_env example_ui (Finite (42 / 100)) = Inl OSError"
    by (simp add: no_pdf_env_def)
  have r: "readAll (history empty_world) = Inr []"
    by (simp add: empty_world_def readAll_def)
  show ?thesis
    using report_failure_keeps_history [OF p g r]
    by (simp add: empty_world_def no_pdf_env_def example_env_def)
qed

section \<open>A batch\<close>

lemma columns_fill_missing:
  "distinct cols \<Longrightarrow>
   columns (fill_missing cols df) = columns df @ filter (\<lambda>c. c \<notin> set (columns df)) cols"
proof (induction cols arbitrary: df)
  case Nil
  then show ?case by simp
next
  case (Cons col cols)
  then have d: "distinct cols" and n: "col \<notin> set cols" by auto
  show ?case
  proof (cases "col \<in> set (columns df)")
    case True
    then show ?thesis using Cons.IH [OF d, of df] by simp
  next
    case False
    have "filter (\<lambda>c. c \<noteq> col \<and> c \<notin> set (columns df)) cols
            = filter (\<lambda>c. c \<notin> set (columns df)) cols"
      using n by (intro filter_cong) auto
    then show ?thesis
      using False Cons.IH [OF d, of "set_scalar col (default_cell col) df"]
      by (simp add: put_name_def)
  qed
qed

lemma distinct_UI_FIELDS: "distinct UI_FIELDS"
  by (simp add: UI_FIELDS_def)

lemma MODEL_in_UI: "set MODEL_FEATURES \<subseteq> set UI_FIELDS"
  by (simp add: MODEL_FEATURES_def UI_FIELDS_def)

lemma rows_fill_UI:
  "rows (fill_missing UI_FIELDS ed) = map (filled ed) (rows ed)"
  by (simp add: rows_fill_missing filled_def fun_eq_iff)

lemma batch_cell_filled:
  assumes "f \<in> set MODEL_FEATURES"
  shows "batch_cell (fill_missing UI_FIELDS ed) (filled ed r) f = batch_cell ed r f"
proof -
  have u: "f \<in> set UI_FIELDS" using assms MODEL_in_UI by auto
  have d: "default_cell f = PyFloat (Finite 0)"
    using assms by (auto simp: default_cell_def MODEL_FEATURES_def)
  show ?thesis
    using u d by (simp add: batch_cell_def set_columns_fill_missing filled_def fillna0_def)
qed

lemma batch_reorder:
  "reorder (model_feature_names e) (model_batch_of ub) =
     Inr \<lparr>columns = feature_order e,
          rows = map (\<lambda>r c. if c \<in> set MODEL_FEATURES then batch_cell ub r c else NaN) (rows ub)\<rparr>"
  by (subst reorder_eq)
    (simp_all add: columns_model_batch_of rows_model_batch_of feature_order_def)

lemma batch_table_eq:
  "reorder (model_feature_names e) (model_batch_of (fill_missing UI_FIELDS ed)) = Inr mb
   \<Longrightarrow> table_of mb = batch_table e ed"
  using feature_order_subset [of e]
  by (auto simp: batch_reorder table_of_def body_def batch_table_def rows_fill_UI
      batch_cell_filled)

lemma batch_out_eq:
  "set_series ''prediction'' (map PyFloat preds) (fill_missing UI_FIELDS ed) = batch_out ed preds"
  by (simp add: set_series_def batch_out_def columns_fill_missing distinct_UI_FIELDS
      rows_fill_UI zip_map_map split_def)

lemma select_history_columns:
  "select_cols (batch_out ed preds) (UI_FIELDS @ [''prediction'']) =
     Inr ((batch_out ed preds)\<lparr>columns := UI_FIELDS @ [''prediction'']\<rparr>)"
  by (rule select_cols_ok) (auto simp: batch_out_def)

lemma history_columns_batch:
  "history_columns (e, df\<lparr>columns := UI_FIELDS @ [''prediction'']\<rparr>, preds, mode) =
     UI_FIELDS @ [''prediction'', ''mode'', ''timestamp'']"
  by (simp add: put_name_def UI_FIELDS_def)

lemma written_batch:
  assumes "length preds = length (rows ed)"
  shows "written (e, (batch_out ed preds)\<lparr>columns := UI_FIELDS @ [''prediction'']\<rparr>, preds,
                  ''batch'') = batch_lines e ed preds"
proof -
  have c: "history_columns
             (e, (batch_out ed preds)\<lparr>columns := UI_FIELDS @ [''prediction'']\<rparr>, preds, ''batch'')
           = UI_FIELDS @ [''prediction'', ''mode'', ''timestamp'']"
    by (rule history_columns_batch)
  show ?thesis
    unfolding written.simps c
    using assms
    by (intro nth_equalityI) (simp_all add: batch_out_def batch_lines_def UI_FIELDS_def)
qed

lemma rows_batch_out [simp]:
  "length (rows (batch_out ed preds)) = min (length (rows ed)) (length preds)"
  by (simp add: batch_out_def)

lemma predictMany_cases:
  "predictMany e ed w =
     (let w1 = w\<lparr>model_calls := model_calls w @ [batch_table e ed]\<rparr> in
      case predict e (batch_table e ed) of
        Inl x \<Rightarrow> (Inl x, w1)
      | Inr preds \<Rightarrow>
          if length preds \<noteq> length (rows ed) then (Inl ValueError, w1)
          else
            (let w2 = emit (Dataframe (table_of (batch_out ed preds))) w1 in
             case to_csv_error e of
               Some x \<Rightarrow> (Inl x, w2)
             | None \<Rightarrow>
                 (Inr preds,
                  emit (DownloadCsv (table_of (batch_out ed preds)))
                    (w2\<lparr>history := Some (case history w of
                           None \<Rightarrow> history_header # batch_lines e ed preds
                         | Some old \<Rightarrow> old @ batch_lines e ed preds)\<rparr>))))"
proof -
  obtain mb where mb:
    "reorder (model_feature_names e) (model_batch_of (fill_missing UI_FIELDS ed)) = Inr mb"
    by (simp add: batch_reorder)
  have t: "table_of mb = batch_table e ed" by (rule batch_table_eq [OF mb])
  show ?thesis
    unfolding predictMany_def Let_def mb
    by (auto simp: call_predict_def t emit_def set_list_def batch_out_eq
        select_history_columns save_history_csv_eq written_batch history_columns_batch
        history_header_def
        simp del: written.simps history_columns.simps
        split: sum.splits option.splits)
qed

lemma batch_predict_nonempty:
  "rows ed \<noteq> [] \<Longrightarrow>
   batch_predict e (Some ed) w =
     (case predictMany e ed w of
        (Inl x, w') \<Rightarrow> emit (Error ''Batch prediction failed'' x) w'
      | (Inr preds, w') \<Rightarrow> w')"
  by (simp add: batch_predict_def)

lemma single_predict_model_calls:
  "model_calls (single_predict e ui w) = model_calls w @ [single_table e ui]"
  by (auto simp: single_predict_def predictOne_cases Let_def emit_def
      split: sum.splits list.splits option.splits)

lemma batch_predict_model_calls:
  "rows ed \<noteq> [] \<Longrightarrow>
   model_calls (batch_predict e (Some ed) w) = model_calls w @ [batch_table e ed]"
  by (auto simp: batch_predict_nonempty predictMany_cases Let_def emit_def
      split: sum.splits option.splits)

section \<open>Failures before the history is written\<close>

text \<open>
  Claim C4. In the single handler, if the adapter raises or \<open>model.predict\<close> raises,
  the page shows "Prediction failed" with that exception and the history file is what it
  was. In the batch handler on a table with at least one row, if the adaptation raises
  or \<open>model.predict\<close> raises, the page shows "Batch prediction failed" with that
  exception and the history file is what it was: no line of the batch is written.
\<close>

theorem failure_leaves_history_unchanged:
  "((prepare_model_df_from_ui_dict e ui = Inl x
      \<or> (\<exists>df. prepare_model_df_from_ui_dict e ui = Inr df \<and> predict e (table_of df) = Inl x))
     \<longrightarrow> history (single_predict e ui w) = history w
         \<and> screen (single_predict e ui w) = screen w @ [Error ''Prediction failed'' x])
   \<and> (rows ed \<noteq> []
       \<and> (reorder (model_feature_names e) (model_batch_of (fill_missing UI_FIELDS ed)) = Inl x
          \<or> (\<exists>mb. reorder (model_feature_names e) (model_batch_of (fill_missing UI_FIELDS ed))
                     = Inr mb
                   \<and> predict e (table_of mb) = Inl x))
     \<longrightarrow> history (batch_predict e (Some ed) w) = history w
         \<and> screen (batch_predict e (Some ed) w)
             = screen w @ [Error ''Batch prediction failed'' x])"
proof (intro conjI impI)
  assume a: "prepare_model_df_from_ui_dict e ui = Inl x
      \<or> (\<exists>df. prepare_model_df_from_ui_dict e ui = Inr df \<and> predict e (table_of df) = Inl x)"
  then have p: "predict e (single_table e ui) = Inl x"
    using prepare_table [of e ui] by (auto simp: prepare_frame)
  show "history (single_predict e ui w) = history w"
    using p by (simp add: single_predict_def predictOne_cases emit_def)
  show "screen (single_predict e ui w) = screen w @ [Error ''Prediction failed'' x]"
    using p by (simp add: single_predict_def predictOne_cases emit_def)
next
  assume a: "rows ed \<noteq> []
       \<and> (reorder (model_feature_names e) (model_batch_of (fill_missing UI_FIELDS ed)) = Inl x
          \<or> (\<exists>mb. reorder (model_feature_names e) (model_batch_of (fill_missing UI_FIELDS ed))
                     = Inr mb
                   \<and> predict e (table_of mb) = Inl x))"
  then have n: "rows ed \<noteq> []" and p: "predict e (batch_table e ed) = Inl x"
    using batch_table_eq [of e ed] by (auto simp: batch_reorder)
  show "history (batch_predict e (Some ed) w) = history w"
    using p by (simp add: batch_predict_nonempty [OF n] predictMany_cases emit_def)
  show "screen (batch_predict e (Some ed) w) = screen w @ [Error ''Batch prediction failed'' x]"
    using p by (simp add: batch_predict_nonempty [OF n] predictMany_cases emit_def)
qed

theorem failure_leaves_history_unchanged_witness:
  "history (single_predict failing_env example_ui empty_world) = None
   \<and> screen (single_predict failing_env example_ui empty_world)
       = [Error ''Prediction failed'' (ModelFailure ''predict'')]
   \<and> history (batch_predict failing_env (Some example_upload) empty_world) = None
   \<and> screen (batch_predict failing_env (Some example_upload) empty_world)
       = [Error ''Batch prediction failed'' (ModelFailure ''predict'')]"
proof -
  have 1: "prepare_model_df_from_ui_dict failing_env example_ui = Inl (ModelFailure ''predict'')
      \<or> (\<exists>df. prepare_model_df_from_ui_dict failing_env example_ui = Inr df
               \<and> predict failing_env (table_of df) = Inl (ModelFailure ''predict''))"
    by (simp add: prepare_frame failing_env_def)
  have 2: "rows example_upload \<noteq> []
       \<and> (reorder (model_feature_names failing_env)
             (model_batch_of (fill_missing UI_FIELDS example_upload))
            = Inl (ModelFailure ''predict'')
          \<or> (\<exists>mb. reorder (model_feature_names failing_env)
                      (model_batch_of (fill_missing UI_FIELDS example_upload)) = Inr mb
                   \<and> predict failing_env (table_of mb) = Inl (ModelFailure ''predict'')))"
    by (simp add: batch_reorder failing_env_def example_upload_def)
  show ?thesis
    using failure_leaves_history_unchanged
      [of failing_env example_ui "ModelFailure ''predict''" empty_world example_upload] 1 2
    by (simp add: empty_world_def)
qed

section \<open>One model call per batch\<close>



lemmas parse_defs =
  float_of_str_def float_literal_def unsigned_literal_def number_def exponent_def scale10_def
  overflow_threshold_def underflow_threshold_def strip_def is_space_def is_digit_def lower_def negate_def

lemma parse_examples:
  "float_of_str ''N/A'' = None"
  "float_of_str ''0.05'' = Some (Finite (5 / 100))"
  "float_of_str ''inf'' = Some PosInf"
  "float_of_str ''nan'' = Some NaN"
  "float_literal (strip ''1.5'') = Some (Finite (15 / 10))"
  "float_literal (strip ''N/A'') = None"
  "float_of_str ''1e400'' = Some PosInf"
  "float_of_str ''1e-400'' = Some (Finite 0)"
  "float_of_str ''1_000'' = Some (Finite 1000)"
  "float_literal (strip ''1_000'') = None"
  by (simp_all add: parse_defs)

lemma feature_order_example [simp]:
  "feature_order example_env = MODEL_FEATURES"
  "feature_order failing_env = MODEL_FEATURES"
  by (simp_all add: feature_order_def model_feature_names_def example_env_def failing_env_def)



section \<open>The order of the feature columns\<close>

lemma feature_order_cases:
  "feature_order e =
     (case feature_names_in e of
        Some ns \<Rightarrow> if set ns \<subseteq> set MODEL_FEATURES then ns else MODEL_FEATURES
      | None \<Rightarrow> MODEL_FEATURES)"
  by (simp add: feature_order_def model_feature_names_def split: option.splits)

text \<open>
  What the guard of lines 113-117 and 415-418 does. In every adaptation, single and
  batch, the columns given to the model are the model's declared names, in the declared
  order, exactly when the model declares names and each declared name is one of the
  eight coerced fields; in every other case (no declaration, or a declared name that is
  not one of the eight) they are the eight features in the canonical order. This is also
  the header of the table that \<open>model.predict\<close> receives from either handler.
\<close>

theorem declared_order_precedence:
  "(\<exists>df. prepare_model_df_from_ui_dict e d = Inr df
         \<and> columns df =
             (case feature_names_in e of
                Some ns \<Rightarrow> if set ns \<subseteq> set MODEL_FEATURES then ns else MODEL_FEATURES
              | None \<Rightarrow> MODEL_FEATURES))
   \<and> (\<exists>mb. reorder (model_feature_names e) (model_batch_of (fill_missing UI_FIELDS ed)) = Inr mb
         \<and> columns mb =
             (case feature_names_in e of
                Some ns \<Rightarrow> if set ns \<subseteq> set MODEL_FEATURES then ns else MODEL_FEATURES
              | None \<Rightarrow> MODEL_FEATURES))
   \<and> fst (last (model_calls (single_predict e d w))) =
         (case feature_names_in e of
            Some ns \<Rightarrow> if set ns \<subseteq> set MODEL_FEATURES then ns else MODEL_FEATURES
          | None \<Rightarrow> MODEL_FEATURES)
   \<and> (rows ed \<noteq> [] \<longrightarrow>
        fst (last (model_calls (batch_predict e (Some ed) w))) =
          (case feature_names_in e of
             Some ns \<Rightarrow> if set ns \<subseteq> set MODEL_FEATURES then ns else MODEL_FEATURES
           | None \<Rightarrow> MODEL_FEATURES))"
proof (intro conjI impI)
  show "\<exists>df. prepare_model_df_from_ui_dict e d = Inr df
         \<and> columns df =
             (case feature_names_in e of
                Some ns \<Rightarrow> if set ns \<subseteq> set MODEL_FEATURES then ns else MODEL_FEATURES
              | None \<Rightarrow> MODEL_FEATURES)"
    by (simp add: prepare_frame feature_order_cases)
  show "\<exists>mb. reorder (model_feature_names e) (model_batch_of (fill_missing UI_FIELDS ed)) = Inr mb
         \<and> columns mb =
             (case feature_names_in e of
                Some ns \<Rightarrow> if set ns \<subseteq> set MODEL_FEATURES then ns else MODEL_FEATURES
              | None \<Rightarrow> MODEL_FEATURES)"
    by (simp add: batch_reorder feature_order_cases)
  show "fst (last (model_calls (single_predict e d w))) =
         (case feature_names_in e of
            Some ns \<Rightarrow> if set ns \<subseteq> set MODEL_FEATURES then ns else MODEL_FEATURES
          | None \<Rightarrow> MODEL_FEATURES)"
    by (simp add: single_predict_model_calls single_table_def feature_order_cases)
next
  assume "rows ed \<noteq> []"
  then show "fst (last (model_calls (batch_predict e (Some ed) w))) =
          (case feature_names_in e of
             Some ns \<Rightarrow> if set ns \<subseteq> set MODEL_FEATURES then ns else MODEL_FEATURES
           | None \<Rightarrow> MODEL_FEATURES)"
    by (simp add: batch_predict_model_calls batch_table_def feature_order_cases)
qed

theorem declared_order_precedence_witness:
  "fst (last (model_calls (single_predict declared_env example_ui empty_world))) =
     [''price_change_24h'', ''liquidity_ratio'', ''mkt_cap'', ''24h_volume'', ''7d'', ''24h'',
      ''1h'', ''price'']
   \<and> fst (last (model_calls (batch_predict declared_env (Some example_upload) empty_world))) =
     [''price_change_24h'', ''liquidity_ratio'', ''mkt_cap'', ''24h_volume'', ''7d'', ''24h'',
      ''1h'', ''price'']"
proof -
  have n: "rows example_upload \<noteq> []" by (simp add: example_upload_def)
  show ?thesis
    using declared_order_precedence [of declared_env example_ui example_upload empty_world] n
    by (simp add: declared_env_def example_env_def MODEL_FEATURES_def)
qed


section \<open>Coercion of the fields\<close>

lemma coerce_field_cases:
  "coerce_field ov =
     (case ov of
        None \<Rightarrow> Finite 0
      | Some v \<Rightarrow>
          if v = PyNone \<or> v = PyStr [] then Finite 0
          else (case py_float v of Inl x \<Rightarrow> Finite 0 | Inr y \<Rightarrow> y))"
  by (auto simp: coerce_field_def Let_def split: option.splits sum.splits)

lemma batch_cell_cases:
  "batch_cell ed r f =
     (if f \<notin> set (columns ed) then Finite 0
      else if r f = PyNone \<or> r f = PyStr [] \<or> to_numeric_coerce (r f) = NaN then Finite 0
      else to_numeric_coerce (r f))"
  by (auto simp: batch_cell_def fillna0_def float_literal_def strip_def)

text \<open>
  Claim C2 as it was stated gives one rule for both modes: 0.0 for a value that is
  missing, None, empty or unparsable, the float parse of the value otherwise. The two
  adapters do not follow one rule. On the value "nan", which \<open>float\<close> parses to NaN
  without raising, the single adapter passes NaN to the model and the batch adapter
  passes 0.0: whichever of the two the rule asks for, one mode does the other.
\<close>

theorem nan_coercion_counterexample:
  "py_float (PyStr ''nan'') = Inr NaN
   \<and> model_calls (single_predict example_env nan_ui empty_world) =
     [([''price'', ''1h'', ''24h'', ''7d'', ''24h_volume'', ''mkt_cap'', ''liquidity_ratio'',
        ''price_change_24h''],
       [[NaN, Finite 0, Finite 0, Finite 0, Finite 0, Finite 0, Finite 0, Finite 0]])]
   \<and> model_calls (batch_predict example_env (Some nan_upload) empty_world) =
     [([''price'', ''1h'', ''24h'', ''7d'', ''24h_volume'', ''mkt_cap'', ''liquidity_ratio'',
        ''price_change_24h''],
       [[Finite 0, Finite 0, Finite 0, Finite 0, Finite 0, Finite 0, Finite 0, Finite 0]])]"
proof -
  have n: "rows nan_upload \<noteq> []" by (simp add: nan_upload_def)
  have l: "float_literal (strip ''nan'') = Some NaN" by (simp add: parse_defs)
  show ?thesis
    by (simp add: single_predict_model_calls batch_predict_model_calls [OF n] single_table_def
        batch_table_def empty_world_def parse_examples)
      (simp add: MODEL_FEATURES_def nan_ui_def nan_upload_def coerce_field_cases batch_cell_def
        fillna0_def parse_examples l)
qed

text \<open>
  Claim C2, as amended: each mode has its own rule. Single mode (lines 94-118): the
  adapter always returns a frame of one row, and for each of the eight features the cell
  is 0.0 when the key is missing, when the value is None or the empty string, or when
  \<open>float\<close> raises on it, and is \<open>float\<close> of the value otherwise (NaN or an
  infinity included). Batch mode (lines 401-418): the adapter always returns a frame
  with one row per uploaded row, and for each of the eight features the cell is 0.0 when
  the column is missing, when the cell is None or the empty string, or when the numeric
  conversion gives NaN (the mark of a missing or unreadable cell), and is the converted
  number otherwise (an infinity included). Neither adapter ever raises.
\<close>

theorem coercion_is_best_effort:
  "(\<exists>row. prepare_model_df_from_ui_dict e d = Inr \<lparr>columns = feature_order e, rows = [row]\<rparr>
       \<and> (\<forall>f \<in> set MODEL_FEATURES.
             row f =
               (case d f of
                  None \<Rightarrow> Finite 0
                | Some v \<Rightarrow>
                    if v = PyNone \<or> v = PyStr [] then Finite 0
                    else (case py_float v of Inl x \<Rightarrow> Finite 0 | Inr y \<Rightarrow> y))))
   \<and> (\<exists>adapt. reorder (model_feature_names e) (model_batch_of (fill_missing UI_FIELDS ed))
                 = Inr \<lparr>columns = feature_order e, rows = map adapt (rows ed)\<rparr>
       \<and> (\<forall>r. \<forall>f \<in> set MODEL_FEATURES.
             adapt r f =
               (if f \<notin> set (columns ed) then Finite 0
                else if r f = PyNone \<or> r f = PyStr [] \<or> to_numeric_coerce (r f) = NaN
                     then Finite 0
                else to_numeric_coerce (r f))))"
proof (intro conjI)
  show "\<exists>row. prepare_model_df_from_ui_dict e d = Inr \<lparr>columns = feature_order e, rows = [row]\<rparr>
       \<and> (\<forall>f \<in> set MODEL_FEATURES.
             row f =
               (case d f of
                  None \<Rightarrow> Finite 0
                | Some v \<Rightarrow>
                    if v = PyNone \<or> v = PyStr [] then Finite 0
                    else (case py_float v of Inl x \<Rightarrow> Finite 0 | Inr y \<Rightarrow> y)))"
    by (intro exI [of _ "\<lambda>c. if c \<in> set MODEL_FEATURES then coerce_field (d c) else NaN"])
      (simp add: prepare_frame coerce_field_cases)
  let ?adapt = "\<lambda>r c. if c \<in> set MODEL_FEATURES
                       then batch_cell (fill_missing UI_FIELDS ed) (filled ed r) c else NaN"
  have "reorder (model_feature_names e) (model_batch_of (fill_missing UI_FIELDS ed))
          = Inr \<lparr>columns = feature_order e, rows = map ?adapt (rows ed)\<rparr>"
    by (simp add: batch_reorder rows_fill_UI comp_def)
  moreover have "\<forall>r. \<forall>f \<in> set MODEL_FEATURES.
             ?adapt r f =
               (if f \<notin> set (columns ed) then Finite 0
                else if r f = PyNone \<or> r f = PyStr [] \<or> to_numeric_coerce (r f) = NaN
                     then Finite 0
                else to_numeric_coerce (r f))"
  proof (intro allI ballI)
    fix r f
    assume "f \<in> set MODEL_FEATURES"
    then have "?adapt r f = batch_cell ed r f" by (simp add: batch_cell_filled)
    then show "?adapt r f =
               (if f \<notin> set (columns ed) then Finite 0
                else if r f = PyNone \<or> r f = PyStr [] \<or> to_numeric_coerce (r f) = NaN
                     then Finite 0
                else to_numeric_coerce (r f))"
      by (simp only: batch_cell_cases)
  qed
  ultimately show "\<exists>adapt. reorder (model_feature_names e) (model_batch_of (fill_missing UI_FIELDS ed))
                 = Inr \<lparr>columns = feature_order e, rows = map adapt (rows ed)\<rparr>
       \<and> (\<forall>r. \<forall>f \<in> set MODEL_FEATURES.
             adapt r f =
               (if f \<notin> set (columns ed) then Finite 0
                else if r f = PyNone \<or> r f = PyStr [] \<or> to_numeric_coerce (r f) = NaN
                     then Finite 0
                else to_numeric_coerce (r f)))"
    by blast
qed

theorem coercion_is_best_effort_witness:
  "(\<exists>row. prepare_model_df_from_ui_dict example_env example_ui
              = Inr \<lparr>columns = MODEL_FEATURES, rows = [row]\<rparr>
       \<and> row ''price'' = Finite 100 \<and> row ''1h'' = Finite 0 \<and> row ''24h'' = Finite 0
       \<and> row ''7d'' = Finite (5 / 100) \<and> row ''24h_volume'' = Finite 0
       \<and> row ''mkt_cap'' = Finite 0)
   \<and> (\<exists>adapt. reorder (model_feature_names example_env)
                  (model_batch_of (fill_missing UI_FIELDS example_upload))
                 = Inr \<lparr>columns = MODEL_FEATURES, rows = map adapt (rows example_upload)\<rparr>
       \<and> adapt (rows example_upload ! 0) ''price'' = Finite (15 / 10)
       \<and> adapt (rows example_upload ! 1) ''price'' = Finite 0
       \<and> adapt (rows example_upload ! 0) ''mkt_cap'' = Finite 0)"
proof -
  note t = coercion_is_best_effort [of example_env example_ui example_upload]
  obtain row where r: "prepare_model_df_from_ui_dict example_env example_ui
              = Inr \<lparr>columns = feature_order example_env, rows = [row]\<rparr>"
    and c: "\<forall>f \<in> set MODEL_FEATURES.
             row f =
               (case example_ui f of
                  None \<Rightarrow> Finite 0
                | Some v \<Rightarrow>
                    if v = PyNone \<or> v = PyStr [] then Finite 0
                    else (case py_float v of Inl x \<Rightarrow> Finite 0 | Inr y \<Rightarrow> y))"
    using t by blast
  obtain adapt where a: "reorder (model_feature_names example_env)
                  (model_batch_of (fill_missing UI_FIELDS example_upload))
                 = Inr \<lparr>columns = feature_order example_env, rows = map adapt (rows example_upload)\<rparr>"
    and b: "\<forall>r. \<forall>f \<in> set MODEL_FEATURES.
             adapt r f =
               (if f \<notin> set (columns example_upload) then Finite 0
                else if r f = PyNone \<or> r f = PyStr [] \<or> to_numeric_coerce (r f) = NaN
                     then Finite 0
                else to_numeric_coerce (r f))"
    using t by blast
  have 1: "row ''price'' = Finite 100 \<and> row ''1h'' = Finite 0 \<and> row ''24h'' = Finite 0
       \<and> row ''7d'' = Finite (5 / 100) \<and> row ''24h_volume'' = Finite 0
       \<and> row ''mkt_cap'' = Finite 0"
    using c by (simp add: MODEL_FEATURES_def example_ui_def parse_examples)
  have 2: "adapt (rows example_upload ! 0) ''price'' = Finite (15 / 10)
       \<and> adapt (rows example_upload ! 1) ''price'' = Finite 0
       \<and> adapt (rows example_upload ! 0) ''mkt_cap'' = Finite 0"
    using b by (simp add: MODEL_FEATURES_def example_upload_def parse_examples)
  show ?thesis
    using r a 1 2 by (simp only: feature_order_example) blast
qed

section \<open>Non-finite fields\<close>

text \<open>
  Claim C9 as it was stated fails: the string "inf" in a single record, and an
  infinite cell in an upload, reach \<open>model.predict\<close> as an infinity.
\<close>

theorem infinite_field_counterexample:
  "model_calls (single_predict example_env inf_ui empty_world) =
     [([''price'', ''1h'', ''24h'', ''7d'', ''24h_volume'', ''mkt_cap'', ''liquidity_ratio'',
        ''price_change_24h''],
       [[PosInf, Finite 0, Finite 0, Finite 0, Finite 0, Finite 0, Finite 0, Finite 0]])]
   \<and> model_calls (batch_predict example_env (Some inf_upload) empty_world) =
     [([''price'', ''1h'', ''24h'', ''7d'', ''24h_volume'', ''mkt_cap'', ''liquidity_ratio'',
        ''price_change_24h''],
       [[PosInf, Finite 0, Finite 0, Finite 0, Finite 0, Finite 0, Finite 0, Finite 0]])]
   \<and> \<not> is_finite PosInf"
proof -
  have n: "rows inf_upload \<noteq> []" by (simp add: inf_upload_def)
  show ?thesis
    by (simp add: single_predict_model_calls batch_predict_model_calls [OF n] single_table_def
        batch_table_def is_finite_def empty_world_def)
      (simp add: MODEL_FEATURES_def inf_ui_def inf_upload_def coerce_field_cases batch_cell_def
        fillna0_def parse_examples)
qed

lemma coerce_field_finite:
  "is_finite (coerce_field ov) \<or> (\<exists>v. ov = Some v \<and> py_float v = Inr (coerce_field ov))"
  by (auto simp: coerce_field_cases is_finite_def split: option.splits sum.splits)

lemma batch_cell_finite:
  "batch_cell ed r f \<noteq> NaN
   \<and> (is_finite (batch_cell ed r f)
      \<or> (f \<in> set (columns ed) \<and> to_numeric_coerce (r f) = batch_cell ed r f
         \<and> (batch_cell ed r f = PosInf \<or> batch_cell ed r f = NegInf)))"
  by (cases "to_numeric_coerce (r f)") (auto simp: batch_cell_def fillna0_def is_finite_def)

text \<open>
  Claim C9, as amended. Every field the adapters produce is a float that is finite
  unless the supplied value itself converts to a float that is not. Single mode: a field
  that is not finite is \<open>float\<close> of the value supplied under that key. Batch mode: a
  field is never NaN, and a field that is not finite is an infinity, the numeric
  conversion of the cell of that column.
\<close>

theorem fields_finite_unless_value_is_not:
  "(\<exists>row. prepare_model_df_from_ui_dict e d = Inr \<lparr>columns = feature_order e, rows = [row]\<rparr>
       \<and> (\<forall>f \<in> set MODEL_FEATURES.
             is_finite (row f) \<or> (\<exists>v. d f = Some v \<and> py_float v = Inr (row f))))
   \<and> (\<exists>adapt. reorder (model_feature_names e) (model_batch_of (fill_missing UI_FIELDS ed))
                 = Inr \<lparr>columns = feature_order e, rows = map adapt (rows ed)\<rparr>
       \<and> (\<forall>r. \<forall>f \<in> set MODEL_FEATURES.
             adapt r f \<noteq> NaN
             \<and> (is_finite (adapt r f)
                \<or> (f \<in> set (columns ed) \<and> to_numeric_coerce (r f) = adapt r f
                   \<and> (adapt r f = PosInf \<or> adapt r f = NegInf)))))"
proof (intro conjI)
  show "\<exists>row. prepare_model_df_from_ui_dict e d = Inr \<lparr>columns = feature_order e, rows = [row]\<rparr>
       \<and> (\<forall>f \<in> set MODEL_FEATURES.
             is_finite (row f) \<or> (\<exists>v. d f = Some v \<and> py_float v = Inr (row f)))"
    by (intro exI [of _ "\<lambda>c. if c \<in> set MODEL_FEATURES then coerce_field (d c) else NaN"])
      (simp add: prepare_frame coerce_field_finite)
  let ?adapt = "\<lambda>r c. if c \<in> set MODEL_FEATURES
                       then batch_cell (fill_missing UI_FIELDS ed) (filled ed r) c else NaN"
  have "reorder (model_feature_names e) (model_batch_of (fill_missing UI_FIELDS ed))
          = Inr \<lparr>columns = feature_order e, rows = map ?adapt (rows ed)\<rparr>"
    by (simp add: batch_reorder rows_fill_UI comp_def)
  moreover have "\<forall>r. \<forall>f \<in> set MODEL_FEATURES.
             ?adapt r f \<noteq> NaN
             \<and> (is_finite (?adapt r f)
                \<or> (f \<in> set (columns ed) \<and> to_numeric_coerce (r f) = ?adapt r f
                   \<and> (?adapt r f = PosInf \<or> ?adapt r f = NegInf)))"
  proof (intro allI ballI)
    fix r f
    assume "f \<in> set MODEL_FEATURES"
    then have "?adapt r f = batch_cell ed r f" by (simp add: batch_cell_filled)
    then show "?adapt r f \<noteq> NaN
             \<and> (is_finite (?adapt r f)
                \<or> (f \<in> set (columns ed) \<and> to_numeric_coerce (r f) = ?adapt r f
                   \<and> (?adapt r f = PosInf \<or> ?adapt r f = NegInf)))"
      using batch_cell_finite [of ed r f] by simp
  qed
  ultimately show "\<exists>adapt. reorder (model_feature_names e) (model_batch_of (fill_missing UI_FIELDS ed))
                 = Inr \<lparr>columns = feature_order e, rows = map adapt (rows ed)\<rparr>
       \<and> (\<forall>r. \<forall>f \<in> set MODEL_FEATURES.
             adapt r f \<noteq> NaN
             \<and> (is_finite (adapt r f)
                \<or> (f \<in> set (columns ed) \<and> to_numeric_coerce (r f) = adapt r f
                   \<and> (adapt r f = PosInf \<or> adapt r f = NegInf))))"
    by blast
qed

theorem fields_finite_unless_value_is_not_witness:
  "\<exists>row. prepare_model_df_from_ui_dict example_env inf_ui
             = Inr \<lparr>columns = MODEL_FEATURES, rows = [row]\<rparr>
       \<and> is_finite (row ''1h'') \<and> is_finite (row ''mkt_cap'')"
proof -
  obtain row where r: "prepare_model_df_from_ui_dict example_env inf_ui
              = Inr \<lparr>columns = feature_order example_env, rows = [row]\<rparr>"
    and c: "\<forall>f \<in> set MODEL_FEATURES.
             is_finite (row f) \<or> (\<exists>v. inf_ui f = Some v \<and> py_float v = Inr (row f))"
    using fields_finite_unless_value_is_not [of example_env inf_ui example_upload] by blast
  have "is_finite (row ''1h'') \<and> is_finite (row ''mkt_cap'')"
    using c by (simp add: MODEL_FEATURES_def inf_ui_def)
  with r show ?thesis by (simp only: feature_order_example) blast
qed

section \<open>Extra columns of an upload\<close>







end
